theory Spec2Isabelle
  imports Main "HOL-Library.AList"
begin

section \<open>Data model\<close>

text \<open>
  The client of \<^verbatim>\<open>crunchyroll_beta/sync/api.py\<close>. Decoded JSON values are a datatype;
  a Python \<^verbatim>\<open>dict\<close> is an association list in insertion order. Strings are lists of
  characters, each character a code point below 256. Python names that start with an
  underscore lose it (\<^verbatim>\<open>_login\<close> is \<open>login\<close>), and \<^verbatim>\<open>self.locale\<close> is \<open>locale_tag\<close>.
\<close>

type_synonym 'v dict = "(string \<times> 'v) list"

datatype json =
    JNull
  | JBool bool
  | JInt int
  | JStr string
  | JList "json list"
  | JDict "(string \<times> json) list"

text \<open>
  Header values. \<^verbatim>\<open>AUTHORIZATION\<close> is a constant of the absent \<^verbatim>\<open>utils\<close> module and stays
  symbolic; \<open>TokenAuth token_type access_token\<close> stands for the formatted string
  \<^verbatim>\<open>f"{token_type} {access_token}"\<close>.
\<close>

datatype hvalue =
    Lit string
  | AUTHORIZATION
  | TokenAuth json json

text \<open>
  URLs. The endpoint templates are constants of the absent \<^verbatim>\<open>utils\<close> module; a template
  applied by \<^verbatim>\<open>.format(...)\<close> is the constructor applied to the format arguments.
  \<open>PLAYLIST_URL\<close> is the caller's URL handed to \<^verbatim>\<open>get_formats\<close>.
\<close>

datatype url =
    TOKEN_ENDPOINT
  | INDEX_ENDPOINT
  | PROFILE_ENDPOINT
  | SEARCH_ENDPOINT
  | SERIES_ENDPOINT json string
  | SEASONS_ENDPOINT json
  | EPISODES_ENDPOINT json
  | STREAMS_ENDPOINT json string
  | SIMILAR_ENDPOINT json
  | NEWSFEED_ENDPOINT
  | BROWSE_ENDPOINT
  | PLAYLIST_URL string

text \<open>
  Every \<^verbatim>\<open>CrunchyrollError\<close> the client raises, by its message:
  \<^item> \<open>Client_not_started\<close>: \<^verbatim>\<open>"Client is not started yet!"\<close> (the spec's NotStarted);
  \<^item> \<open>Invalid_login code\<close>: \<^verbatim>\<open>f"[{code}] Invalid login credentials."\<close> (AuthError);
  \<^item> \<open>Error_occured code message\<close>: \<^verbatim>\<open>f"[{code}] Error occured: {message}"\<close> (ApiError);
  \<^item> \<open>Status_text code text\<close>: \<^verbatim>\<open>f"[{code}] {r.text}"\<close> (HttpError).
\<close>

datatype message =
    Client_not_started
  | Invalid_login int
  | Error_occured int json
  | Status_text int string

text \<open>
  The exceptions of a run: the client's own error, those of the Python runtime, a failure
  of the HTTP transport, and a body that does not decode as JSON.
\<close>

datatype error =
    CrunchyrollError message
  | TransportError
  | JSONDecodeError
  | AttributeError
  | TypeError
  | KeyError
  | IndexError
  | ValueError

record request =
  req_method :: string
  req_url :: url
  req_headers :: "hvalue dict"
  req_params :: "json dict option"
  req_data :: "string dict option"

text \<open>
  An HTTP response as the client reads it: \<^verbatim>\<open>r.status_code\<close>, \<^verbatim>\<open>r.text\<close> (\<open>rtext\<close>) and
  \<^verbatim>\<open>r.json()\<close> (\<open>rjson\<close>). The upstream API answers JSON objects, and \<^verbatim>\<open>_make_request\<close> is
  annotated to return a \<^verbatim>\<open>Dict\<close>: a decoded body is a JSON object here, and \<open>None\<close> is a
  body that does not decode (\<^verbatim>\<open>r.json()\<close> raises).
\<close>

record response =
  status_code :: int
  rtext :: string
  rjson :: "json dict option"

text \<open>
  The environment of the client:
  \<^item> \<open>pending\<close>: what the transport will answer to the next requests, in order
    (\<open>None\<close>: the transport raises; an exhausted list raises too);
  \<^item> \<open>trace\<close>: every request issued so far, with its answer;
  \<^item> \<open>clock\<close>: the reading \<^verbatim>\<open>get_date()\<close> returns;
  \<^item> \<open>default_headers\<close>: the one mapping object created for the default value
    \<^verbatim>\<open>headers: Dict=dict()\<close> of \<^verbatim>\<open>_make_request\<close>, shared by every call that omits the argument.
\<close>

record world =
  pending :: "response option list"
  trace :: "(request \<times> response option) list"
  clock :: int
  default_headers :: "hvalue dict"

text \<open>The attributes of a \<^verbatim>\<open>Crunchyroll\<close> instance, and the environment it runs in.\<close>

record state =
  email :: string
  password :: string
  locale_tag :: string
  config :: "json dict"
  api_headers :: "hvalue dict"
  env :: world

section \<open>Dictionaries\<close>

definition py_in :: "string \<Rightarrow> 'v dict \<Rightarrow> bool" where
  "py_in k d = (map_of d k \<noteq> None)"

definition py_get :: "json dict \<Rightarrow> string \<Rightarrow> json" where
  "py_get d k = (case map_of d k of None \<Rightarrow> JNull | Some v \<Rightarrow> v)"

text \<open>\<^verbatim>\<open>d.update(r)\<close>: the entries of \<open>r\<close> are stored in order, each replacing the value of
  a key already present or appended as a new key.\<close>

definition dict_update :: "'v dict \<Rightarrow> 'v dict \<Rightarrow> 'v dict" where
  "dict_update d r = fold (\<lambda>(k, v). AList.update k v) r d"

section \<open>The request dispatcher\<close>

text \<open>\<^verbatim>\<open>__init__\<close>: a fresh client in environment \<open>w\<close>.\<close>

definition Crunchyroll :: "string \<Rightarrow> string \<Rightarrow> string \<Rightarrow> world \<Rightarrow> state" where
  "Crunchyroll em pw loc w =
     \<lparr> email = em, password = pw, locale_tag = loc, config = [],
       api_headers =
         [(''User-Agent'', Lit ''Mozilla/5.0 (Windows NT 10.0; Win64; x64) AppleWebKit/537.36 (KHTML, like Gecko) Chrome/96.0.4664.45 Safari/537.36''),
          (''Content-Type'', Lit ''application/x-www-form-urlencoded'')],
       env = w \<rparr>"

text \<open>\<^verbatim>\<open>httpx.request\<close>: the request is recorded with the answer the transport gives.\<close>

definition httpx_request :: "request \<Rightarrow> world \<Rightarrow> (error + response) \<times> world" where
  "httpx_request rq w =
     (case pending w of
        [] \<Rightarrow> (Inl TransportError, w\<lparr>trace := trace w @ [(rq, None)]\<rparr>)
      | None # rs \<Rightarrow> (Inl TransportError, w\<lparr>pending := rs, trace := trace w @ [(rq, None)]\<rparr>)
      | Some r # rs \<Rightarrow> (Inr r, w\<lparr>pending := rs, trace := trace w @ [(rq, Some r)]\<rparr>))"

text \<open>
  Lines 53 to 62 of \<^verbatim>\<open>_make_request\<close>: the classification of a decoded body \<open>r_json\<close>
  received with status \<open>code\<close> and raw text \<open>txt\<close>. The \<^verbatim>\<open>elif\<close> on \<^verbatim>\<open>message\<close> and
  \<^verbatim>\<open>code\<close> is reached only when the body has no \<^verbatim>\<open>error\<close> key; the status check follows
  the whole \<^verbatim>\<open>if\<close> statement.
\<close>

definition raise_for_body :: "int \<Rightarrow> string \<Rightarrow> json dict \<Rightarrow> error + json dict" where
  "raise_for_body code txt r_json =
     (let status_check =
            (if code \<noteq> 200 then Inl (CrunchyrollError (Status_text code txt)) else Inr r_json)
      in if py_in ''error'' r_json then
           (let error_code = py_get r_json ''error''
            in if error_code = JStr ''invalid_grant''
               then Inl (CrunchyrollError (Invalid_login code))
               else status_check)
         else if py_in ''message'' r_json \<and> py_in ''code'' r_json then
           (let message = py_get r_json ''message''
            in Inl (CrunchyrollError (Error_occured code message)))
         else status_check)"

text \<open>The content of the headers mapping a call works on: the caller's, or the shared
  default when the argument is omitted (\<open>None\<close>).\<close>

definition headers_of :: "hvalue dict option \<Rightarrow> state \<Rightarrow> hvalue dict" where
  "headers_of headers s = (case headers of None \<Rightarrow> default_headers (env s) | Some h \<Rightarrow> h)"

text \<open>
  Lines 42 to 62 of \<^verbatim>\<open>_make_request\<close>, which every call that passes the guard runs:
  the headers mapping is updated in place with the client's \<open>api_headers\<close>, the request is
  sent, the answer is decoded and classified. The second component of the result is the
  content of the headers mapping after the call.
\<close>

definition send :: "string \<Rightarrow> url \<Rightarrow> hvalue dict option \<Rightarrow> json dict option \<Rightarrow> string dict option
    \<Rightarrow> state \<Rightarrow> (error + json dict) \<times> hvalue dict \<times> state" where
  "send method u headers params data s =
     (let h = dict_update (headers_of headers s) (api_headers s);
          w0 = (case headers of None \<Rightarrow> (env s)\<lparr>default_headers := h\<rparr> | Some _ \<Rightarrow> env s);
          (a, w1) = httpx_request
             \<lparr> req_method = method, req_url = u, req_headers = h,
               req_params = params, req_data = data \<rparr> w0;
          s1 = s\<lparr>env := w1\<rparr>
      in case a of
           Inl e \<Rightarrow> (Inl e, h, s1)
         | Inr r \<Rightarrow>
             (case rjson r of
                None \<Rightarrow> (Inl JSONDecodeError, h, s1)
              | Some r_json \<Rightarrow> (raise_for_body (status_code r) (rtext r) r_json, h, s1)))"

text \<open>
  \<^verbatim>\<open>_login\<close>. Its three requests are calls of \<^verbatim>\<open>_make_request\<close> with \<^verbatim>\<open>login=True\<close>,
  which skip the guard and the session update and so are \<open>send\<close>
  (lemma \<open>make_request_login\<close> below). An exception leaves the updates made before it
  in place.
\<close>

definition login :: "state \<Rightarrow> (error + unit) \<times> state" where
  "login s =
     (case send ''POST'' TOKEN_ENDPOINT (Some [(''Authorization'', AUTHORIZATION)]) None
             (Some [(''username'', email s), (''password'', password s),
                    (''grant_type'', ''password''), (''scope'', ''offline_access'')]) s of
        (Inl e, _, s1) \<Rightarrow> (Inl e, s1)
      | (Inr r, _, s1) \<Rightarrow>
          (let access_token = py_get r ''access_token'';
               token_type = py_get r ''token_type'';
               authorization = [(''Authorization'', TokenAuth token_type access_token)];
               s2 = s1\<lparr>config := dict_update (config s1) r,
                       api_headers := dict_update (api_headers s1) authorization\<rparr>
           in case send ''GET'' INDEX_ENDPOINT None None None s2 of
                (Inl e, _, s3) \<Rightarrow> (Inl e, s3)
              | (Inr r2, _, s3) \<Rightarrow>
                  (let s4 = s3\<lparr>config := dict_update (config s3) r2\<rparr>
                   in case send ''GET'' PROFILE_ENDPOINT None None None s4 of
                        (Inl e, _, s5) \<Rightarrow> (Inl e, s5)
                      | (Inr r3, _, s5) \<Rightarrow>
                          (Inr (), s5\<lparr>config := dict_update (config s5) r3\<rparr>))))"


text \<open>
  \<^verbatim>\<open>_update_session\<close>. \<^verbatim>\<open>get_date\<close> reads the clock; \<^verbatim>\<open>str_to_date\<close>, of the absent
  \<^verbatim>\<open>utils\<close> module, is the parameter \<open>str_to_date\<close>, from the JSON value stored under
  \<^verbatim>\<open>expires\<close> to a point in time or the exception it raises. Subscripting a \<^verbatim>\<open>cms\<close> value
  that is no mapping raises \<^verbatim>\<open>TypeError\<close>, a missing \<^verbatim>\<open>expires\<close> key \<^verbatim>\<open>KeyError\<close>.
\<close>

definition update_session :: "(json \<Rightarrow> error + int) \<Rightarrow> state \<Rightarrow> (error + unit) \<times> state" where
  "update_session str_to_date s =
     (if py_in ''cms'' (config s) then
        (let current_time = clock (env s)
         in case py_get (config s) ''cms'' of
              JDict cms \<Rightarrow>
                (case map_of cms ''expires'' of
                   None \<Rightarrow> (Inl KeyError, s)
                 | Some e \<Rightarrow>
                     (case str_to_date e of
                        Inl err \<Rightarrow> (Inl err, s)
                      | Inr expires_time \<Rightarrow>
                          if current_time > expires_time then login s else (Inr (), s)))
            | _ \<Rightarrow> (Inl TypeError, s))
      else (Inr (), s))"

text \<open>\<^verbatim>\<open>_make_request\<close>. \<^verbatim>\<open>not self.config\<close> holds of the empty mapping.\<close>

definition make_request :: "(json \<Rightarrow> error + int) \<Rightarrow> string \<Rightarrow> url \<Rightarrow> hvalue dict option
    \<Rightarrow> json dict option \<Rightarrow> string dict option \<Rightarrow> bool
    \<Rightarrow> state \<Rightarrow> (error + json dict) \<times> hvalue dict \<times> state" where
  "make_request str_to_date method u headers params data login_call s =
     (if config s = [] \<and> \<not> login_call
      then (Inl (CrunchyrollError Client_not_started), headers_of headers s, s)
      else if \<not> login_call then
        (case update_session str_to_date s of
           (Inl e, s1) \<Rightarrow> (Inl e, headers_of headers s1, s1)
         | (Inr _, s1) \<Rightarrow> send method u headers params data s1)
      else send method u headers params data s)"

section \<open>Strings\<close>

text \<open>\<^verbatim>\<open>str(n)\<close> of an integer: its decimal digits, with a minus sign when negative.\<close>

fun str_nat :: "nat \<Rightarrow> string" where
  "str_nat n =
     (if n < 10 then [char_of (48 + n)] else str_nat (n div 10) @ [char_of (48 + n mod 10)])"

declare str_nat.simps [simp del]

definition str_int :: "int \<Rightarrow> string" where
  "str_int i = (if i < 0 then CHR ''-'' # str_nat (nat (- i)) else str_nat (nat i))"

text \<open>The white space \<^verbatim>\<open>str.strip()\<close> removes, among the code points below 256.\<close>

definition is_space :: "char \<Rightarrow> bool" where
  "is_space c = ((of_char c :: nat) \<in> {9, 10, 11, 12, 13, 28, 29, 30, 31, 32, 133, 160})"

definition strip :: "string \<Rightarrow> string" where
  "strip s = rev (dropWhile is_space (rev (dropWhile is_space s)))"

text \<open>\<^verbatim>\<open>s.split("\n")\<close>: the pieces between line feeds; never empty.\<close>

fun split_lines :: "string \<Rightarrow> string list" where
  "split_lines [] = [[]]"
| "split_lines (c # cs) =
     (if c = CHR 0x0A then [] # split_lines cs
      else (case split_lines cs of [] \<Rightarrow> [[c]] | l # ls \<Rightarrow> (c # l) # ls))"

text \<open>
  \<^verbatim>\<open>int(x)\<close> of a string: white space around it is dropped, a sign may lead, and the
  rest is decimal digits, with single underscores allowed between two digits; anything
  else raises \<^verbatim>\<open>ValueError\<close>, and so do more than 4300 digits (the default limit of the
  interpreter). The white space \<^verbatim>\<open>int\<close> drops is narrower than that of \<^verbatim>\<open>str.strip()\<close>:
  the separators \<^verbatim>\<open>\x1c\<close> to \<^verbatim>\<open>\x1f\<close> are not part of it.
\<close>

definition is_int_space :: "char \<Rightarrow> bool" where
  "is_int_space c = ((of_char c :: nat) \<in> {9, 10, 11, 12, 13, 32, 133, 160})"

definition int_strip :: "string \<Rightarrow> string" where
  "int_strip s = rev (dropWhile is_int_space (rev (dropWhile is_int_space s)))"

definition is_digit :: "char \<Rightarrow> bool" where
  "is_digit c = (48 \<le> (of_char c :: nat) \<and> (of_char c :: nat) \<le> 57)"

fun digits_value :: "nat \<Rightarrow> bool \<Rightarrow> string \<Rightarrow> nat option" where
  "digits_value acc after_digit [] = (if after_digit then Some acc else None)"
| "digits_value acc after_digit (c # cs) =
     (if is_digit c then digits_value (10 * acc + (of_char c - 48)) True cs
      else if c = CHR ''_'' \<and> after_digit then digits_value acc False cs
      else None)"

definition py_int :: "string \<Rightarrow> error + int" where
  "py_int x =
     (let t = int_strip x;
          (neg, ds) = (case t of
                         c # cs \<Rightarrow> if c = CHR ''-'' then (True, cs)
                                   else if c = CHR ''+'' then (False, cs) else (False, t)
                       | [] \<Rightarrow> (False, t))
      in if length (filter is_digit ds) > 4300 then Inl ValueError
         else case digits_value 0 False ds of
                None \<Rightarrow> Inl ValueError
              | Some n \<Rightarrow> Inr (if neg then - int n else int n))"



section \<open>The response normalizer\<close>

text \<open>
  Modelled from the spec: \<^verbatim>\<open>fixup\<close>, of the absent \<^verbatim>\<open>utils\<close> module. The spec (4.3): given a
  decoded stream-metadata JSON object, repair a known defect where one nested mapping uses
  an empty string as a key: rename/relocate that entry to its intended field name in
  place. The spec names neither the field nor where the mapping is nested: the intended
  name is the parameter \<open>name\<close>, and every mapping nested in the body, at any depth, is
  repaired. \<open>rename_empty\<close> is \<^verbatim>\<open>m[name] = m.pop("")\<close> when \<^verbatim>\<open>""\<close> is a key of \<open>m\<close>.
\<close>

definition rename_empty :: "string \<Rightarrow> json dict \<Rightarrow> json dict" where
  "rename_empty name m =
     (case map_of m [] of
        None \<Rightarrow> m
      | Some v \<Rightarrow> AList.update name v (AList.delete [] m))"

fun fix_nested :: "string \<Rightarrow> json \<Rightarrow> json" where
  "fix_nested name (JDict d) = JDict (rename_empty name (map (map_prod id (fix_nested name)) d))"
| "fix_nested name (JList xs) = JList (map (fix_nested name) xs)"
| "fix_nested name v = v"

definition fixup :: "string \<Rightarrow> json dict \<Rightarrow> json dict" where
  "fixup name r = map (map_prod id (fix_nested name)) r"

section \<open>The API surface\<close>

text \<open>
  The entity classes live in the absent \<^verbatim>\<open>types\<close> module: \<^verbatim>\<open>Collection(**kwargs)\<close> is the
  constructor applied to the keyword arguments. What an operation returns is the decoded
  body (\<^verbatim>\<open>raw_json=True\<close>), one entity, or a list of entities.
\<close>

datatype entity =
    Collection "json dict"
  | Series "json dict"
  | Season "json dict"
  | Episode "json dict"
  | StreamsInfo "json dict"
  | Panel "json dict"
  | NewsFeed "json dict"

datatype result =
    Raw "json dict"
  | Entity entity
  | Entities "entity list"

text \<open>
  \<^verbatim>\<open>[C(**item) for item in r.get("items")]\<close>: the items are iterated, and each must be a
  mapping to be unpacked. A missing or null \<^verbatim>\<open>items\<close>, a number or a boolean is not
  iterable; iterating a mapping or a string gives strings, which do not unpack.
\<close>

fun unpack_all :: "(json dict \<Rightarrow> entity) \<Rightarrow> json list \<Rightarrow> error + entity list" where
  "unpack_all C [] = Inr []"
| "unpack_all C (JDict d # xs) =
     (case unpack_all C xs of Inl e \<Rightarrow> Inl e | Inr es \<Rightarrow> Inr (C d # es))"
| "unpack_all C (_ # xs) = Inl TypeError"

fun build_items :: "(json dict \<Rightarrow> entity) \<Rightarrow> json \<Rightarrow> error + entity list" where
  "build_items C (JList xs) = unpack_all C xs"
| "build_items C (JDict d) = (if d = [] then Inr [] else Inl TypeError)"
| "build_items C (JStr t) = (if t = [] then Inr [] else Inl TypeError)"
| "build_items C _ = Inl TypeError"

definition items_or_raw :: "(json dict \<Rightarrow> entity) \<Rightarrow> bool \<Rightarrow> json dict \<Rightarrow> error + result" where
  "items_or_raw C raw_json r =
     (if \<not> raw_json then
        (case build_items C (py_get r ''items'') of Inl e \<Rightarrow> Inl e | Inr es \<Rightarrow> Inr (Entities es))
      else Inr (Raw r))"


definition search :: "(json \<Rightarrow> error + int) \<Rightarrow> string \<Rightarrow> int \<Rightarrow> bool \<Rightarrow> state
    \<Rightarrow> (error + result) \<times> state" where
  "search str_to_date query n raw_json s =
     (case make_request str_to_date ''GET'' SEARCH_ENDPOINT None
             (Some [(''q'', JStr query), (''n'', JStr (str_int n)),
                    (''locale'', JStr (locale_tag s))]) None False s of
        (Inl e, _, s1) \<Rightarrow> (Inl e, s1)
      | (Inr r, _, s1) \<Rightarrow> (items_or_raw Collection raw_json r, s1))"








section \<open>The playlist parser\<close>

text \<open>
  One rendition: the keyword arguments of \<^verbatim>\<open>PlaylistItem(**frmt)\<close>, a class of the absent
  \<^verbatim>\<open>types\<close> module. \<^verbatim>\<open>framerate\<close> and \<^verbatim>\<open>codecs\<close> are groups of the match as they are, \<open>None\<close>
  for a group that took no part in it.
\<close>

record PlaylistItem =
  url :: string
  bandwidth :: int
  width :: int
  height :: int
  framerate :: "string option"
  codecs :: "string option"

text \<open>\<^verbatim>\<open>regesp.group(k)\<close> on the groups of a match, and \<^verbatim>\<open>int(...)\<close> of a group.\<close>

definition group :: "string option list \<Rightarrow> nat \<Rightarrow> error + string option" where
  "group gs k = (if 1 \<le> k \<and> k \<le> length gs then Inr (gs ! (k - 1)) else Inl IndexError)"

definition int_group :: "string option list \<Rightarrow> nat \<Rightarrow> error + int" where
  "int_group gs k =
     (case group gs k of
        Inl e \<Rightarrow> Inl e
      | Inr None \<Rightarrow> Inl TypeError
      | Inr (Some x) \<Rightarrow> py_int x)"

text \<open>Evaluation in sequence: the first exception ends it.\<close>

definition raising :: "error + 'a \<Rightarrow> ('a \<Rightarrow> error + 'b) \<Rightarrow> error + 'b" where
  "raising x f = (case x of Inl e \<Rightarrow> Inl e | Inr v \<Rightarrow> f v)"

text \<open>
  The dictionary built for a match at the line numbered \<open>i\<close> (counted from 1): its entries
  are evaluated in order, \<^verbatim>\<open>lines[i]\<close> first, which is the line after the match and raises
  \<^verbatim>\<open>IndexError\<close> when there is none.
\<close>

definition make_format :: "string list \<Rightarrow> nat \<Rightarrow> string option list \<Rightarrow> error + PlaylistItem" where
  "make_format lines i gs =
     (if \<not> i < length lines then Inl IndexError
      else
        raising (int_group gs 1) (\<lambda>b.
        raising (int_group gs 2) (\<lambda>w.
        raising (int_group gs 3) (\<lambda>h.
        raising (group gs 4) (\<lambda>fr.
        raising (group gs 5) (\<lambda>cd.
          Inr \<lparr> url = strip (lines ! i), bandwidth = b, width = w, height = h,
                framerate = fr, codecs = cd \<rparr>))))))"

text \<open>
  The loop \<^verbatim>\<open>for i, line in enumerate(lines, 1)\<close>, from the line numbered \<open>i\<close> on.
  \<open>reg\<close> is \<^verbatim>\<open>re.match(PLAYLIST_REG, _)\<close>, a parameter since \<^verbatim>\<open>PLAYLIST_REG\<close> is a constant
  of the absent \<^verbatim>\<open>utils\<close> module: \<open>None\<close> for no match, or the groups 1, 2, ... of
  the match.
\<close>

fun scan :: "(string \<Rightarrow> string option list option) \<Rightarrow> string list \<Rightarrow> nat \<Rightarrow> string list
    \<Rightarrow> PlaylistItem list \<Rightarrow> error + PlaylistItem list" where
  "scan reg lines i [] formats = Inr formats"
| "scan reg lines i (line # rest) formats =
     (case reg (strip line) of
        None \<Rightarrow> scan reg lines (i + 1) rest formats
      | Some gs \<Rightarrow>
          (case make_format lines i gs of
             Inl e \<Rightarrow> Inl e
           | Inr frmt \<Rightarrow> scan reg lines (i + 1) rest (formats @ [frmt])))"

text \<open>\<^verbatim>\<open>get_formats\<close>: \<^verbatim>\<open>httpx.get(url)\<close> carries none of the client's headers, and neither
  the status nor the session is looked at.\<close>

definition get_formats :: "(string \<Rightarrow> string option list option) \<Rightarrow> string \<Rightarrow> state
    \<Rightarrow> (error + PlaylistItem list) \<times> state" where
  "get_formats reg u s =
     (case httpx_request \<lparr> req_method = ''GET'', req_url = PLAYLIST_URL u, req_headers = [],
                           req_params = None, req_data = None \<rparr> (env s) of
        (Inl e, w1) \<Rightarrow> (Inl e, s\<lparr>env := w1\<rparr>)
      | (Inr r, w1) \<Rightarrow>
          (let lines = split_lines (rtext r)
           in (scan reg lines 1 lines [], s\<lparr>env := w1\<rparr>)))"

text \<open>
  Modelled from the spec: \<^verbatim>\<open>PLAYLIST_REG\<close>, of the absent \<^verbatim>\<open>utils\<close> module, the variant-stream
  attribute pattern capturing bandwidth, width, height, optional framerate and codecs
  list (4.4), on lines of the shape of the spec's example (8.5):
  \<^verbatim>\<open>#EXT-X-STREAM-INF:BANDWIDTH=<digits>,RESOLUTION=<digits>x<digits>\<close>, then optionally
  \<^verbatim>\<open>,FRAME-RATE=<up to the next comma>\<close>, then \<^verbatim>\<open>,CODECS="<up to the next quote>"\<close>.
\<close>

definition expect :: "string \<Rightarrow> string \<Rightarrow> string option" where
  "expect p t = (if take (length p) t = p then Some (drop (length p) t) else None)"

definition digits1 :: "string \<Rightarrow> (string \<times> string) option" where
  "digits1 t =
     (if takeWhile is_digit t = [] then None
      else Some (takeWhile is_digit t, dropWhile is_digit t))"

definition codecs_part :: "string \<Rightarrow> string option" where
  "codecs_part t =
     (case expect '',CODECS='' t of
        Some (q # t1) \<Rightarrow>
          if q = CHR 0x22 \<and> CHR 0x22 \<in> set t1
          then Some (takeWhile (\<lambda>c. c \<noteq> CHR 0x22) t1) else None
      | _ \<Rightarrow> None)"

definition playlist_reg :: "string \<Rightarrow> string option list option" where
  "playlist_reg line =
     Option.bind (expect ''#EXT-X-STREAM-INF:BANDWIDTH='' line) (\<lambda>t1.
     Option.bind (digits1 t1) (\<lambda>(b, t2).
     Option.bind (expect '',RESOLUTION='' t2) (\<lambda>t3.
     Option.bind (digits1 t3) (\<lambda>(w, t4).
     Option.bind (expect ''x'' t4) (\<lambda>t5.
     Option.bind (digits1 t5) (\<lambda>(h, t6).
       (case expect '',FRAME-RATE='' t6 of
          Some t7 \<Rightarrow>
            Option.bind (codecs_part (dropWhile (\<lambda>c. c \<noteq> CHR '','') t7)) (\<lambda>cd.
              Some [Some b, Some w, Some h, Some (takeWhile (\<lambda>c. c \<noteq> CHR '','') t7), Some cd])
        | None \<Rightarrow>
            Option.bind (codecs_part t6) (\<lambda>cd.
              Some [Some b, Some w, Some h, None, Some cd]))))))))"

section \<open>Sequences of operations\<close>




section \<open>Observing a run\<close>

text \<open>
  The request a call of the dispatcher puts on the wire in state \<open>s\<close>, the answer the
  transport holds for the next request, the requests issued between two states, and the
  number of token-exchange requests among some requests: each login issues exactly one.
\<close>

definition sent_request :: "string \<Rightarrow> url \<Rightarrow> hvalue dict option \<Rightarrow> json dict option
    \<Rightarrow> string dict option \<Rightarrow> state \<Rightarrow> request" where
  "sent_request method u headers params data s =
     \<lparr> req_method = method, req_url = u,
       req_headers = dict_update (headers_of headers s) (api_headers s),
       req_params = params, req_data = data \<rparr>"

definition next_answer :: "world \<Rightarrow> response option" where
  "next_answer w = (case pending w of [] \<Rightarrow> None | a # _ \<Rightarrow> a)"

definition issued :: "state \<Rightarrow> state \<Rightarrow> (request \<times> response option) list" where
  "issued s s' = drop (length (trace (env s))) (trace (env s'))"

definition token_requests :: "(request \<times> response option) list \<Rightarrow> nat" where
  "token_requests tr = length (filter (\<lambda>x. req_url (fst x) = TOKEN_ENDPOINT) tr)"


section \<open>Examples\<close>

text \<open>An environment that answers the next requests with \<open>rs\<close>, at clock reading \<open>t\<close>.\<close>

definition answering :: "response list \<Rightarrow> int \<Rightarrow> world" where
  "answering rs t = \<lparr> pending = map Some rs, trace = [], clock = t, default_headers = [] \<rparr>"

definition ok :: "json dict \<Rightarrow> response" where
  "ok body = \<lparr> status_code = 200, rtext = [], rjson = Some body \<rparr>"

text \<open>A body that is both a grant error and a message/code error, and one whose
  \<^verbatim>\<open>error\<close> is another one.\<close>

definition grant_body :: "json dict" where
  "grant_body = [(''error'', JStr ''invalid_grant''), (''message'', JStr ''denied''),
                 (''code'', JStr ''auth.denied'')]"

definition other_error_body :: "json dict" where
  "other_error_body = [(''error'', JStr ''server_error''), (''message'', JStr ''busy''),
                       (''code'', JStr ''sys.busy'')]"

definition message_body :: "json dict" where
  "message_body = [(''message'', JStr ''busy''), (''code'', JStr ''sys.busy'')]"

text \<open>
  An example \<^verbatim>\<open>str_to_date\<close>, reading a time stamp written as a count of seconds; bodies
  as the three steps of a login and a search receive them; and the state a login on these
  bodies leaves.
\<close>

definition example_date :: "json \<Rightarrow> error + int" where
  "example_date j = (case j of JStr x \<Rightarrow> py_int x | _ \<Rightarrow> Inl TypeError)"

definition token_body :: "json dict" where
  "token_body = [(''access_token'', JStr ''tok''), (''token_type'', JStr ''Bearer'')]"

definition cms_block :: "json dict" where
  "cms_block = [(''bucket'', JStr ''/b''), (''policy'', JStr ''pol''),
                (''signature'', JStr ''sig''), (''key_pair_id'', JStr ''kp''),
                (''expires'', JStr ''1000'')]"

definition index_body :: "json dict" where
  "index_body = [(''cms'', JDict cms_block)]"

definition profile_body :: "json dict" where
  "profile_body = [(''account_id'', JStr ''acc'')]"

definition logged_in :: "world \<Rightarrow> state" where
  "logged_in w =
     \<lparr> email = ''user'', password = ''secret'', locale_tag = ''en-US'',
       config = token_body @ index_body @ profile_body,
       api_headers = api_headers (Crunchyroll ''user'' ''secret'' ''en-US'' w)
                     @ [(''Authorization'', TokenAuth (JStr ''Bearer'') (JStr ''tok''))],
       env = w \<rparr>"

definition items_body :: "json dict" where
  "items_body = [(''total'', JInt 1), (''items'', JList [JDict [(''type'', JStr ''series'')]])]"

text \<open>A stream-metadata body with the defect: an entry under the empty key.\<close>

definition streams_body :: "json dict" where
  "streams_body =
     [(''media_id'', JStr ''GR3VWXP96''),
      (''streams'', JDict [(''adaptive_hls'',
          JDict [([], JDict [(''url'', JStr ''http://cdn/master.m3u8'')]),
                 (''en-US'', JDict [(''url'', JStr ''http://cdn/en.m3u8'')])])])]"

text \<open>
  The playlist of the spec's example (8.5): two descriptor lines, each followed by its
  URL; and a playlist cut off after a descriptor line.
\<close>

definition descriptor_360 :: string where
  "descriptor_360 =
     ''#EXT-X-STREAM-INF:BANDWIDTH=831200,RESOLUTION=640x360,FRAME-RATE=23.976,CODECS=''
     @ [CHR 0x22] @ ''avc1,mp4a'' @ [CHR 0x22]"

definition descriptor_1080 :: string where
  "descriptor_1080 =
     ''#EXT-X-STREAM-INF:BANDWIDTH=2145000,RESOLUTION=1920x1080,FRAME-RATE=23.976,CODECS=''
     @ [CHR 0x22] @ ''avc1,mp4a'' @ [CHR 0x22]"

definition playlist_text :: string where
  "playlist_text =
     descriptor_360 @ [CHR 0x0A] @ ''http://example.com/360p.m3u8'' @ [CHR 0x0A]
     @ descriptor_1080 @ [CHR 0x0A] @ ''http://example.com/1080p.m3u8''"

definition truncated_text :: string where
  "truncated_text = ''#EXTM3U'' @ [CHR 0x0A] @ descriptor_360"

section \<open>Dictionaries: lemmas\<close>





section \<open>The dispatcher: lemmas\<close>

lemma raise_for_body_Inr: "raise_for_body code txt body = Inr r \<Longrightarrow> r = body \<and> code = 200"
  by (simp add: raise_for_body_def Let_def split: if_splits)

lemma sent_request_url [simp]: "req_url (sent_request method u headers params data s) = u"
  by (simp add: sent_request_def)

text \<open>What \<open>send\<close> returns and the state it leaves, in closed form.\<close>

lemma send_unfold:
  "send method u headers params data s =
    (case next_answer (env s) of
       None \<Rightarrow> Inl TransportError
     | Some r \<Rightarrow> (case rjson r of None \<Rightarrow> Inl JSONDecodeError
                  | Some b \<Rightarrow> raise_for_body (status_code r) (rtext r) b),
     dict_update (headers_of headers s) (api_headers s),
     s\<lparr>env := (env s)\<lparr>
          default_headers := (case headers of
              None \<Rightarrow> dict_update (default_headers (env s)) (api_headers s)
            | Some _ \<Rightarrow> default_headers (env s)),
          pending := tl (pending (env s)),
          trace := trace (env s)
                   @ [(sent_request method u headers params data s, next_answer (env s))]\<rparr>\<rparr>)"
  by (simp add: send_def httpx_request_def sent_request_def next_answer_def headers_of_def Let_def
       split: option.splits list.splits sum.splits)

lemma send_answer:
  assumes "pending (env s) = Some a # rest" and "rjson a = Some body"
  shows "fst (send method u headers params data s)
           = raise_for_body (status_code a) (rtext a) body"
  using assms by (simp add: send_unfold next_answer_def)

text \<open>A call with \<^verbatim>\<open>login=True\<close> is \<open>send\<close>.\<close>

lemma make_request_login:
  "make_request str_to_date method u headers params data True s
     = send method u headers params data s"
  by (simp add: make_request_def)

lemma login_trace:
  "\<exists>xs. trace (env (snd (login s))) = trace (env s) @ xs \<and> token_requests xs = 1
        \<and> xs \<noteq> [] \<and> req_url (fst (hd xs)) = TOKEN_ENDPOINT"
  by (simp add: login_def send_unfold Let_def token_requests_def
        split: option.splits sum.splits)


section \<open>Error classification\<close>

text \<open>
  C5. A body with an \<^verbatim>\<open>error\<close> field equal to \<^verbatim>\<open>invalid_grant\<close> and a \<^verbatim>\<open>message\<close>/\<^verbatim>\<open>code\<close>
  pair is classified as the grant error (AuthError, invalid login credentials) with the
  status code, not as the message/code error: by the classification itself, and by
  every call of the dispatcher that receives such a body (\<open>send\<close> is what a call runs
  once past the guard).
\<close>

theorem grant_error_precedence:
  assumes "pending (env s) = Some a # rest" and "rjson a = Some body"
    and "map_of body ''error'' = Some (JStr ''invalid_grant'')"
    and "py_in ''message'' body" and "py_in ''code'' body"
  shows "raise_for_body (status_code a) (rtext a) body
           = Inl (CrunchyrollError (Invalid_login (status_code a)))
       \<and> fst (send method u headers params data s)
           = Inl (CrunchyrollError (Invalid_login (status_code a)))"
proof -
  have "raise_for_body (status_code a) (rtext a) body
           = Inl (CrunchyrollError (Invalid_login (status_code a)))"
    using assms(3) by (simp add: raise_for_body_def py_in_def py_get_def)
  then show ?thesis using send_answer [OF assms(1,2)] by simp
qed

theorem grant_error_precedence_witness:
  "fst (send ''POST'' TOKEN_ENDPOINT None None None
         (Crunchyroll ''user'' ''secret'' ''en-US''
            (answering [\<lparr> status_code = 401, rtext = ''denied'', rjson = Some grant_body \<rparr>] 0)))
     = Inl (CrunchyrollError (Invalid_login 401))"
  using grant_error_precedence
    [of "Crunchyroll ''user'' ''secret'' ''en-US''
           (answering [\<lparr> status_code = 401, rtext = ''denied'', rjson = Some grant_body \<rparr>] 0)"
        "\<lparr> status_code = 401, rtext = ''denied'', rjson = Some grant_body \<rparr>" "[]" grant_body
        "''POST''" TOKEN_ENDPOINT None None None]
  by (simp add: Crunchyroll_def answering_def grant_body_def py_in_def)

text \<open>
  C4, as the code has it. The message/code branch is an \<^verbatim>\<open>elif\<close> of the test for an
  \<^verbatim>\<open>error\<close> key, so a body that has an \<^verbatim>\<open>error\<close> key is never classified by its
  \<^verbatim>\<open>message\<close> and \<^verbatim>\<open>code\<close>. With an \<^verbatim>\<open>error\<close> other than \<^verbatim>\<open>invalid_grant\<close> and a
  \<^verbatim>\<open>message\<close>/\<^verbatim>\<open>code\<close> pair, a call answered with status 200 returns the body, and one
  answered with status 503 fails with the status and the raw text.
\<close>

theorem error_field_counterexample:
  "py_in ''message'' other_error_body \<and> py_in ''code'' other_error_body
   \<and> py_get other_error_body ''error'' \<noteq> JStr ''invalid_grant''
   \<and> fst (send ''GET'' SEARCH_ENDPOINT None None None
            (Crunchyroll ''user'' ''secret'' ''en-US'' (answering [ok other_error_body] 0)))
       = Inr other_error_body
   \<and> fst (send ''GET'' SEARCH_ENDPOINT None None None
            (Crunchyroll ''user'' ''secret'' ''en-US''
               (answering [\<lparr> status_code = 503, rtext = ''busy'', rjson = Some other_error_body \<rparr>] 0)))
       = Inl (CrunchyrollError (Status_text 503 ''busy''))"
  by (simp add: send_unfold next_answer_def answering_def ok_def Crunchyroll_def
        raise_for_body_def other_error_body_def py_in_def py_get_def)

text \<open>
  C4, amended. For every decoded body without an \<^verbatim>\<open>error\<close> field that has both a
  \<^verbatim>\<open>message\<close> and a \<^verbatim>\<open>code\<close> field, the dispatcher fails with the message/code error
  (ApiError) carrying that message and the status code. A body with an \<^verbatim>\<open>error\<close> field
  other than \<^verbatim>\<open>invalid_grant\<close> goes to the status check whatever else it holds: the
  call fails with the status and the raw text when the status is not 200, and returns the
  body otherwise.
\<close>

theorem message_code_error:
  assumes "pending (env s) = Some a # rest" and "rjson a = Some body"
  shows "(\<not> py_in ''error'' body \<and> py_in ''message'' body \<and> py_in ''code'' body \<longrightarrow>
            fst (send method u headers params data s)
              = Inl (CrunchyrollError (Error_occured (status_code a) (py_get body ''message''))))
       \<and> (py_in ''error'' body \<and> py_get body ''error'' \<noteq> JStr ''invalid_grant'' \<longrightarrow>
            fst (send method u headers params data s)
              = (if status_code a \<noteq> 200
                 then Inl (CrunchyrollError (Status_text (status_code a) (rtext a)))
                 else Inr body))"
  unfolding send_answer [OF assms]
  by (simp add: raise_for_body_def Let_def)

theorem message_code_error_witness:
  "fst (send ''GET'' SEARCH_ENDPOINT None None None
          (Crunchyroll ''user'' ''secret'' ''en-US''
             (answering [\<lparr> status_code = 503, rtext = ''busy'', rjson = Some message_body \<rparr>] 0)))
     = Inl (CrunchyrollError (Error_occured 503 (JStr ''busy'')))
   \<and> fst (send ''GET'' SEARCH_ENDPOINT None None None
          (Crunchyroll ''user'' ''secret'' ''en-US'' (answering [ok other_error_body] 0)))
     = Inr other_error_body"
  using message_code_error
    [of "Crunchyroll ''user'' ''secret'' ''en-US''
           (answering [\<lparr> status_code = 503, rtext = ''busy'', rjson = Some message_body \<rparr>] 0)"
        "\<lparr> status_code = 503, rtext = ''busy'', rjson = Some message_body \<rparr>" "[]" message_body
        "''GET''" SEARCH_ENDPOINT None None None]
    message_code_error
    [of "Crunchyroll ''user'' ''secret'' ''en-US'' (answering [ok other_error_body] 0)"
        "ok other_error_body" "[]" other_error_body
        "''GET''" SEARCH_ENDPOINT None None None]
  by (simp add: Crunchyroll_def answering_def ok_def message_body_def other_error_body_def
        py_in_def py_get_def)

section \<open>The API surface: properties\<close>

lemma make_request_Inr:
  assumes "fst (make_request str_to_date method u headers params data login_call s) = Inr r"
  shows "\<exists>rq a.
           trace (env (snd (snd (make_request str_to_date method u headers params data login_call s))))
             \<noteq> []
         \<and> last (trace (env (snd (snd
               (make_request str_to_date method u headers params data login_call s)))))
             = (rq, Some a)
         \<and> req_method rq = method \<and> req_url rq = u \<and> req_params rq = params
         \<and> req_data rq = data \<and> status_code a = 200 \<and> rjson a = Some r"
  using assms
  by (auto simp add: make_request_def send_unfold sent_request_def
        split: if_splits prod.splits sum.splits option.splits dest: raise_for_body_Inr)

lemma py_int_1000: "py_int ''1000'' = Inr 1000"
  by (simp add: py_int_def int_strip_def is_int_space_def is_digit_def)


text \<open>
  C8. A successful \<^verbatim>\<open>search\<close> with \<^verbatim>\<open>raw_json=True\<close> returns the decoded body of the answer
  to its search request, the last request of the call, as it is: no entity is built.
\<close>

theorem search_raw_json:
  assumes "fst (search str_to_date query n True s) = Inr res"
  shows "\<exists>rq a body. last (trace (env (snd (search str_to_date query n True s)))) = (rq, Some a)
           \<and> req_url rq = SEARCH_ENDPOINT \<and> rjson a = Some body \<and> res = Raw body"
proof -
  let ?m = "make_request str_to_date ''GET'' SEARCH_ENDPOINT None
             (Some [(''q'', JStr query), (''n'', JStr (str_int n)),
                    (''locale'', JStr (locale_tag s))]) None False s"
  obtain r where r: "fst ?m = Inr r" and res: "res = Raw r"
    and s': "snd (search str_to_date query n True s) = snd (snd ?m)"
    using assms
    by (auto simp add: search_def items_or_raw_def split: prod.splits sum.splits)
  from make_request_Inr [OF r] s' res show ?thesis by auto
qed

theorem search_raw_json_witness:
  "\<exists>rq a body.
      last (trace (env (snd (search example_date ''naruto'' 6 True
                               (logged_in (answering [ok items_body] 999)))))) = (rq, Some a)
      \<and> req_url rq = SEARCH_ENDPOINT \<and> rjson a = Some body \<and> Raw items_body = Raw body"
proof -
  have "fst (search example_date ''naruto'' 6 True (logged_in (answering [ok items_body] 999)))
          = Inr (Raw items_body)"
    by (simp add: search_def make_request_def update_session_def logged_in_def answering_def
          token_body_def index_body_def cms_block_def profile_body_def py_in_def py_get_def example_date_def
          py_int_1000 send_unfold next_answer_def ok_def raise_for_body_def items_body_def
          items_or_raw_def)
  then show ?thesis by (rule search_raw_json)
qed




section \<open>The response normalizer: properties\<close>

lemma rename_empty_idem: "rename_empty name (rename_empty name m) = rename_empty name m"
proof (cases "map_of m []")
  case None
  then show ?thesis by (simp add: rename_empty_def)
next
  case (Some v)
  show ?thesis
  proof (cases "name = []")
    case True
    with Some show ?thesis
      by (simp add: rename_empty_def update_conv' delete_update_same delete_idem)
  next
    case False
    with Some show ?thesis
      by (simp add: rename_empty_def update_conv' delete_conv')
  qed
qed

lemma map_of_map_values: "map_of (map (map_prod id f) m) k = map_option f (map_of m k)"
  by (induction m) auto

lemma delete_map_values:
  "AList.delete k (map (map_prod id f) m) = map (map_prod id f) (AList.delete k m)"
  by (induction m) auto

lemma update_map_values:
  "AList.update k (f v) (map (map_prod id f) m) = map (map_prod id f) (AList.update k v m)"
  by (induction m) auto

text \<open>Renaming a key and rewriting the values do not interfere.\<close>

lemma rename_empty_map_values:
  "rename_empty name (map (map_prod id f) m) = map (map_prod id f) (rename_empty name m)"
  by (simp add: rename_empty_def map_of_map_values delete_map_values update_map_values
        split: option.splits)

lemma fix_nested_idem: "fix_nested name (fix_nested name v) = fix_nested name v"
proof (induction v)
  case (JDict d)
  have "map (map_prod id (fix_nested name)) (map (map_prod id (fix_nested name)) d)
          = map (map_prod id (fix_nested name)) d"
    using JDict.IH by (auto simp add: map_prod_def split: prod.splits)
  then show ?case
    by (simp add: rename_empty_map_values [symmetric] rename_empty_idem del: map_map)
next
  case (JList xs)
  then show ?case by simp
qed simp_all

lemma fixup_example:
  "fixup ''none'' streams_body =
     [(''media_id'', JStr ''GR3VWXP96''),
      (''streams'', JDict [(''adaptive_hls'',
          JDict [(''en-US'', JDict [(''url'', JStr ''http://cdn/en.m3u8'')]),
                 (''none'', JDict [(''url'', JStr ''http://cdn/master.m3u8'')])])])]"
  by (simp add: fixup_def streams_body_def rename_empty_def)

text \<open>
  C9. The response normalizer is idempotent on stream-metadata bodies: for every decoded
  JSON object, applying it twice gives what applying it once gives (whatever the intended
  field name).
\<close>

theorem fixup_idempotent: "fixup name (fixup name r) = fixup name r"
  by (simp add: fixup_def fix_nested_idem map_prod_def split_def comp_def)

section \<open>The playlist parser: properties\<close>

lemma split_playlist_text:
  "split_lines playlist_text =
     [descriptor_360, ''http://example.com/360p.m3u8'',
      descriptor_1080, ''http://example.com/1080p.m3u8'']"
  by (simp add: playlist_text_def descriptor_360_def descriptor_1080_def)

lemma strip_lines:
  "strip descriptor_360 = descriptor_360" "strip descriptor_1080 = descriptor_1080"
  "strip ''http://example.com/360p.m3u8'' = ''http://example.com/360p.m3u8''"
  "strip ''http://example.com/1080p.m3u8'' = ''http://example.com/1080p.m3u8''"
  by (simp_all add: strip_def is_space_def descriptor_360_def descriptor_1080_def)

lemma py_int_examples:
  "py_int ''831200'' = Inr 831200" "py_int ''640'' = Inr 640" "py_int ''360'' = Inr 360"
  "py_int ''2145000'' = Inr 2145000" "py_int ''1920'' = Inr 1920" "py_int ''1080'' = Inr 1080"
  by (simp_all add: py_int_def int_strip_def is_int_space_def is_digit_def)

lemma playlist_reg_examples:
  "playlist_reg descriptor_360
     = Some [Some ''831200'', Some ''640'', Some ''360'', Some ''23.976'', Some ''avc1,mp4a'']"
  "playlist_reg descriptor_1080
     = Some [Some ''2145000'', Some ''1920'', Some ''1080'', Some ''23.976'', Some ''avc1,mp4a'']"
  "playlist_reg ''http://example.com/360p.m3u8'' = None"
  "playlist_reg ''http://example.com/1080p.m3u8'' = None"
  by (simp_all add: playlist_reg_def expect_def digits1_def codecs_part_def is_digit_def
        descriptor_360_def descriptor_1080_def)

text \<open>The scan of the lines \<open>ls @ [d]\<close>, numbered from \<open>i\<close>, when only the last one
  matches: the read of the line after it is out of range.\<close>

lemma scan_trailing_descriptor:
  assumes "\<forall>l \<in> set ls. reg (strip l) = None" and "reg (strip d) = Some gs"
    and "i + length ls = length lines"
  shows "scan reg lines i (ls @ [d]) formats = Inl IndexError"
  using assms
proof (induction ls arbitrary: i)
  case Nil
  then show ?case by (simp add: make_format_def)
next
  case (Cons l ls)
  then show ?case by simp
qed

text \<open>
  C7. The four-line playlist of the spec's example parses to exactly two rendition
  records, in input order: bandwidth 831200, width 640, height 360, then bandwidth 2145000,
  width 1920, height 1080, each with the line after its descriptor as url. This holds for
  every pattern that matches the two descriptor lines with these first three groups and
  does not match the URL lines; \<open>playlist_reg\<close> is one (the witness).
\<close>

theorem get_formats_example:
  assumes "reg descriptor_360 = Some [Some ''831200'', Some ''640'', Some ''360'', fr1, cd1]"
    and "reg descriptor_1080 = Some [Some ''2145000'', Some ''1920'', Some ''1080'', fr2, cd2]"
    and "reg ''http://example.com/360p.m3u8'' = None"
    and "reg ''http://example.com/1080p.m3u8'' = None"
    and "next_answer (env s) = Some a" and "rtext a = playlist_text"
  shows "fst (get_formats reg u s) =
     Inr [\<lparr> url = ''http://example.com/360p.m3u8'', bandwidth = 831200, width = 640,
            height = 360, framerate = fr1, codecs = cd1 \<rparr>,
          \<lparr> url = ''http://example.com/1080p.m3u8'', bandwidth = 2145000, width = 1920,
            height = 1080, framerate = fr2, codecs = cd2 \<rparr>]"
proof -
  have "fst (get_formats reg u s)
          = scan reg (split_lines playlist_text) 1 (split_lines playlist_text) []"
    using assms(5,6)
    by (simp add: get_formats_def httpx_request_def next_answer_def Let_def
          split: list.splits option.splits)
  then show ?thesis
    by (simp add: split_playlist_text strip_lines assms(1-4) make_format_def raising_def
          int_group_def group_def py_int_examples)
qed

theorem get_formats_example_witness:
  "fst (get_formats playlist_reg ''http://cdn/master.m3u8''
          (logged_in (answering
             [\<lparr> status_code = 200, rtext = playlist_text, rjson = None \<rparr>] 0))) =
     Inr [\<lparr> url = ''http://example.com/360p.m3u8'', bandwidth = 831200, width = 640,
            height = 360, framerate = Some ''23.976'', codecs = Some ''avc1,mp4a'' \<rparr>,
          \<lparr> url = ''http://example.com/1080p.m3u8'', bandwidth = 2145000, width = 1920,
            height = 1080, framerate = Some ''23.976'', codecs = Some ''avc1,mp4a'' \<rparr>]"
proof -
  have a: "next_answer (env (logged_in (answering
             [\<lparr> status_code = 200, rtext = playlist_text, rjson = None \<rparr>] 0)))
           = Some \<lparr> status_code = 200, rtext = playlist_text, rjson = None \<rparr>"
    by (simp add: next_answer_def logged_in_def answering_def)
  have t: "rtext \<lparr> status_code = 200, rtext = playlist_text, rjson = None \<rparr> = playlist_text"
    by simp
  show ?thesis
    by (rule get_formats_example [OF playlist_reg_examples a t])
qed

text \<open>
  C6, on the code. For a playlist text whose last line is the only one that matches the
  descriptor pattern, \<^verbatim>\<open>get_formats\<close> reads \<^verbatim>\<open>lines[i]\<close> one past the last line and ends
  with Python's \<^verbatim>\<open>IndexError\<close>: the match is not skipped, and no error of the client's
  own is raised.
\<close>

theorem trailing_descriptor_fault:
  assumes "next_answer (env s) = Some a" and "split_lines (rtext a) = ls @ [d]"
    and "\<forall>l \<in> set ls. reg (strip l) = None" and "reg (strip d) = Some gs"
  shows "fst (get_formats reg u s) = Inl IndexError"
proof -
  have "fst (get_formats reg u s) = scan reg (ls @ [d]) 1 (ls @ [d]) []"
    using assms(1,2)
    by (simp add: get_formats_def httpx_request_def next_answer_def Let_def
          split: list.splits option.splits)
  moreover have "scan reg (ls @ [d]) 1 (ls @ [d]) [] = Inl IndexError"
    by (rule scan_trailing_descriptor [OF assms(3,4)]) simp
  ultimately show ?thesis by simp
qed

theorem trailing_descriptor_fault_witness:
  "fst (get_formats playlist_reg ''http://cdn/master.m3u8''
          (logged_in (answering
             [\<lparr> status_code = 200, rtext = truncated_text, rjson = None \<rparr>] 0)))
     = Inl IndexError"
proof -
  have a: "next_answer (env (logged_in (answering
             [\<lparr> status_code = 200, rtext = truncated_text, rjson = None \<rparr>] 0)))
           = Some \<lparr> status_code = 200, rtext = truncated_text, rjson = None \<rparr>"
    by (simp add: next_answer_def logged_in_def answering_def)
  have l: "split_lines (rtext \<lparr> status_code = 200, rtext = truncated_text, rjson = None \<rparr>)
             = [''#EXTM3U''] @ [descriptor_360]"
    by (simp add: truncated_text_def descriptor_360_def)
  have n: "\<forall>l \<in> set [''#EXTM3U'']. playlist_reg (strip l) = None"
    by (simp add: strip_def is_space_def playlist_reg_def expect_def)
  have m: "playlist_reg (strip descriptor_360)
             = Some [Some ''831200'', Some ''640'', Some ''360'', Some ''23.976'',
                     Some ''avc1,mp4a'']"
    by (simp add: strip_lines playlist_reg_examples)
  show ?thesis
    by (rule trailing_descriptor_fault [OF a l n m])
qed

section \<open>The session state\<close>

lemma send_config [simp]: "config (snd (snd (send method u headers params data s))) = config s"
  by (simp add: send_unfold)




lemma get_formats_config [simp]: "config (snd (get_formats reg u s)) = config s"
  by (simp add: get_formats_def Let_def split: prod.splits sum.splits)








section \<open>Expiry of the session\<close>

lemma update_session_cms:
  assumes "map_of (config s) ''cms'' = Some (JDict cms)" and "map_of cms ''expires'' = Some e"
    and "std e = Inr t"
  shows "update_session std s = (if clock (env s) > t then login s else (Inr (), s))"
  using assms by (simp add: update_session_def py_in_def py_get_def)

lemma send_trace:
  "trace (env (snd (snd (send method u headers params data s))))
     = trace (env s) @ [(sent_request method u headers params data s, next_answer (env s))]"
  by (simp add: send_unfold)

lemma token_requests_append:
  "token_requests (xs @ ys) = token_requests xs + token_requests ys"
  by (simp add: token_requests_def)

lemma logged_in_cms:
  "map_of (config (logged_in w)) ''cms'' = Some (JDict cms_block)"
  "map_of cms_block ''expires'' = Some (JStr ''1000'')"
  "example_date (JStr ''1000'') = Inr 1000"
  by (simp_all add: logged_in_def token_body_def index_body_def profile_body_def cms_block_def
        example_date_def py_int_1000)

text \<open>
  C1, as the code has it. The test is \<^verbatim>\<open>current_time > expires_time\<close>: with \<^verbatim>\<open>cms.expires\<close>
  equal to the current time the request is sent at once, and no login runs.
\<close>

theorem expiry_boundary_counterexample:
  "map_of (config (logged_in (answering [ok items_body] 1000))) ''cms'' = Some (JDict cms_block)
   \<and> map_of cms_block ''expires'' = Some (JStr ''1000'')
   \<and> example_date (JStr ''1000'') = Inr 1000
   \<and> clock (env (logged_in (answering [ok items_body] 1000))) = 1000
   \<and> fst (make_request example_date ''GET'' SEARCH_ENDPOINT None None None False
             (logged_in (answering [ok items_body] 1000))) = Inr items_body
   \<and> token_requests (issued (logged_in (answering [ok items_body] 1000))
         (snd (snd (make_request example_date ''GET'' SEARCH_ENDPOINT None None None False
             (logged_in (answering [ok items_body] 1000)))))) = 0"
proof -
  have u: "update_session example_date (logged_in (answering [ok items_body] 1000))
             = (Inr (), logged_in (answering [ok items_body] 1000))"
    using update_session_cms [of "logged_in (answering [ok items_body] 1000)" cms_block
            "JStr ''1000''" example_date 1000]
    by (simp add: logged_in_cms) (simp add: logged_in_def answering_def)
  have c: "config (logged_in (answering [ok items_body] 1000)) \<noteq> []"
    by (simp add: logged_in_def token_body_def)
  have m: "make_request example_date ''GET'' SEARCH_ENDPOINT None None None False
             (logged_in (answering [ok items_body] 1000))
           = send ''GET'' SEARCH_ENDPOINT None None None (logged_in (answering [ok items_body] 1000))"
    using u c by (simp add: make_request_def)
  have n: "next_answer (env (logged_in (answering [ok items_body] 1000))) = Some (ok items_body)"
    by (simp add: logged_in_def answering_def next_answer_def)
  have r: "raise_for_body 200 [] items_body = Inr items_body"
    by (simp add: raise_for_body_def items_body_def py_in_def)
  show ?thesis
    unfolding m
    by (simp add: logged_in_cms send_unfold n issued_def token_requests_def)
       (simp add: ok_def r logged_in_def answering_def)
qed

text \<open>
  C1, amended. In a session state whose \<^verbatim>\<open>cms\<close> block has an \<^verbatim>\<open>expires\<close> entry that parses
  to the time \<open>t\<close>, a non-login request triggers the login sequence if and only if \<open>t\<close>
  is strictly before the current time. If it is, exactly one login runs, its token
  exchange is the first request issued, and the original request follows the requests of
  the login, and only when the login succeeded. If it is not (\<open>t\<close> now or later), the
  original request is the one request issued.
\<close>

theorem expiry_gating:
  assumes "map_of (config s) ''cms'' = Some (JDict cms)" and "map_of cms ''expires'' = Some e"
    and "std e = Inr t" and "u \<noteq> TOKEN_ENDPOINT"
  shows "(t < clock (env s) \<longrightarrow>
            token_requests (issued s (snd (snd (make_request std method u headers params data False s)))) = 1
          \<and> req_url (fst (hd (issued s (snd (snd (make_request std method u headers params data False s))))))
              = TOKEN_ENDPOINT
          \<and> issued s (snd (snd (make_request std method u headers params data False s)))
              = issued s (snd (login s))
                @ (case fst (login s) of
                     Inl err \<Rightarrow> []
                   | Inr x \<Rightarrow> [(sent_request method u headers params data (snd (login s)),
                               next_answer (env (snd (login s))))]))
       \<and> (\<not> t < clock (env s) \<longrightarrow>
            issued s (snd (snd (make_request std method u headers params data False s)))
              = [(sent_request method u headers params data s, next_answer (env s))]
          \<and> token_requests (issued s (snd (snd (make_request std method u headers params data False s)))) = 0)"
proof -
  have ne: "config s \<noteq> []" using assms(1) by auto
  obtain xs where xs: "trace (env (snd (login s))) = trace (env s) @ xs"
    "token_requests xs = 1" "xs \<noteq> []" "req_url (fst (hd xs)) = TOKEN_ENDPOINT"
    using login_trace [of s] by blast
  have il: "issued s (snd (login s)) = xs"
    by (simp add: issued_def xs(1))
  show ?thesis
  proof (cases "t < clock (env s)")
    case True
    then have us: "update_session std s = login s"
      using update_session_cms [of s cms e std t] assms(1-3) by simp
    show ?thesis
    proof (cases "fst (login s)")
      case (Inl err)
      then have "snd (snd (make_request std method u headers params data False s)) = snd (login s)"
        using ne us by (cases "login s") (auto simp add: make_request_def)
      then show ?thesis using True Inl il xs by simp
    next
      case (Inr x)
      then have "snd (snd (make_request std method u headers params data False s))
                   = snd (snd (send method u headers params data (snd (login s))))"
        using ne us by (cases "login s") (auto simp add: make_request_def)
      then have "issued s (snd (snd (make_request std method u headers params data False s)))
                   = xs @ [(sent_request method u headers params data (snd (login s)),
                            next_answer (env (snd (login s))))]"
        by (simp add: issued_def send_trace xs(1))
      then show ?thesis
        using True Inr il xs assms(4) by (simp add: token_requests_append) (simp add: token_requests_def)
    qed
  next
    case False
    then have us: "update_session std s = (Inr (), s)"
      using update_session_cms [of s cms e std t] assms(1-3) by simp
    have "snd (snd (make_request std method u headers params data False s))
            = snd (snd (send method u headers params data s))"
      using ne us by (simp add: make_request_def)
    then show ?thesis
      using False assms(4) by (simp add: issued_def send_trace token_requests_def)
  qed
qed

theorem expiry_gating_witness:
  "token_requests (issued
       (logged_in (answering [ok token_body, ok index_body, ok profile_body, ok items_body] 2000))
       (snd (snd (make_request example_date ''GET'' SEARCH_ENDPOINT None None None False
          (logged_in (answering [ok token_body, ok index_body, ok profile_body, ok items_body] 2000))))))
     = 1
   \<and> token_requests (issued (logged_in (answering [ok items_body] 999))
       (snd (snd (make_request example_date ''GET'' SEARCH_ENDPOINT None None None False
          (logged_in (answering [ok items_body] 999))))))
     = 0"
proof -
  have t: "SEARCH_ENDPOINT \<noteq> TOKEN_ENDPOINT" by simp
  have a: "(1000::int) < clock (env (logged_in
             (answering [ok token_body, ok index_body, ok profile_body, ok items_body] 2000)))"
    by (simp add: logged_in_def answering_def)
  have b: "\<not> (1000::int) < clock (env (logged_in (answering [ok items_body] 999)))"
    by (simp add: logged_in_def answering_def)
  note e1 = expiry_gating [of "logged_in (answering [ok token_body, ok index_body, ok profile_body,
              ok items_body] 2000)" cms_block "JStr ''1000''" example_date 1000 SEARCH_ENDPOINT
            "''GET''" None None None, OF logged_in_cms t, THEN conjunct1, THEN mp, OF a,
            THEN conjunct1]
  note e2 = expiry_gating [of "logged_in (answering [ok items_body] 999)" cms_block "JStr ''1000''"
            example_date 1000 SEARCH_ENDPOINT "''GET''" None None None, OF logged_in_cms t,
            THEN conjunct2, THEN mp, OF b, THEN conjunct2]
  from e1 e2 show ?thesis by (rule conjI)
qed

section \<open>The headers mapping\<close>











end
